theory Spec2Isabelle
  imports Main
begin

section \<open>The Home Connect API client: data\<close>

text \<open>
  The class \<open>HomeConnectAPI\<close> keeps its state in fields of \<open>this\<close>; the model passes
  that state explicitly as a record \<open>api\<close>. \<open>Date.now()\<close> is an argument \<open>now\<close>
  (milliseconds, an integer). A character is a UTF-16 code unit below 256. Log output and
  the texts of error messages are not part of the model.
\<close>

text \<open>
  A JavaScript number as far as the client computes with one: times in milliseconds and
  delays in seconds are integers, and \<open>NaN\<close> is what arithmetic on a missing or
  non-numeric value gives. Fractions and infinities are left out.
\<close>

datatype jsnum = Num int | NaN

fun jsAdd :: "jsnum \<Rightarrow> jsnum \<Rightarrow> jsnum" where
  "jsAdd (Num a) (Num b) = Num (a + b)"
| "jsAdd _ _ = NaN"

fun jsSub :: "jsnum \<Rightarrow> jsnum \<Rightarrow> jsnum" where
  "jsSub (Num a) (Num b) = Num (a - b)"
| "jsSub _ _ = NaN"

fun jsMul :: "jsnum \<Rightarrow> jsnum \<Rightarrow> jsnum" where
  "jsMul (Num a) (Num b) = Num (a * b)"
| "jsMul _ _ = NaN"

text \<open>\<open>a < b\<close>: false as soon as one side is \<open>NaN\<close>.\<close>

fun jsLt :: "jsnum \<Rightarrow> jsnum \<Rightarrow> bool" where
  "jsLt (Num a) (Num b) = (a < b)"
| "jsLt _ _ = False"

definition MS :: int where "MS = 1000"
definition AUTH_RETRY_DELAY :: int where "AUTH_RETRY_DELAY = 60"
definition REFRESH_RETRY_DELAY :: int where "REFRESH_RETRY_DELAY = 5"
definition TOKEN_REFRESH_WINDOW :: int where "TOKEN_REFRESH_WINDOW = 60 * 60"

text \<open>
  A decoded JSON value (an error body of the server, or the \<open>data\<close> of an event).
  \<open>JObj\<close> lists the own properties of the object, each key once.
\<close>

datatype json =
    JNull
  | JBool bool
  | JNum int
  | JStr string
  | JArr "json list"
  | JObj "(string \<times> json) list"

text \<open>
  \<open>v.k\<close> for a value \<open>v\<close> that is neither \<open>null\<close> nor \<open>undefined\<close>; \<open>None\<close> is
  \<open>undefined\<close>. Only objects have the properties the client reads.
\<close>

fun get :: "json \<Rightarrow> string \<Rightarrow> json option" where
  "get (JObj kvs) k = map_of kvs k"
| "get _ k = None"

text \<open>
  \<open>a.k\<close> where the code has tested before that \<open>a\<close> is truthy (\<open>a && a.k\<close>).
\<close>

definition field :: "json option \<Rightarrow> string \<Rightarrow> json option" where
  "field a k = (case a of Some v \<Rightarrow> get v k | None \<Rightarrow> None)"

text \<open>What \<open>if (v)\<close> and \<open>v && ...\<close> take as true.\<close>

fun truthy :: "json option \<Rightarrow> bool" where
  "truthy None = False"
| "truthy (Some JNull) = False"
| "truthy (Some (JBool b)) = b"
| "truthy (Some (JNum n)) = (n \<noteq> 0)"
| "truthy (Some (JStr s)) = (s \<noteq> [])"
| "truthy (Some (JArr _)) = True"
| "truthy (Some (JObj _)) = True"

text \<open>The value of \<open>a && a.k\<close>: the property of a truthy \<open>a\<close>, otherwise \<open>a\<close> itself.\<close>

definition andGet :: "json option \<Rightarrow> string \<Rightarrow> json option" where
  "andGet a k = (case a of Some v \<Rightarrow> if truthy a then get v k else a | None \<Rightarrow> None)"

text \<open>
  \<open>v == 'Too many requests'\<close> for a truthy \<open>v\<close>: a string is compared as it is, an array
  through its \<open>toString\<close> (the elements joined by commas, so only a one-element array can
  give this text); numbers, booleans and objects never convert to this text.
\<close>

fun isTooManyRequests :: "json \<Rightarrow> bool" where
  "isTooManyRequests (JStr t) = (t = ''Too many requests'')"
| "isTooManyRequests (JArr [x]) = isTooManyRequests x"
| "isTooManyRequests _ = False"

text \<open>
  One entry of \<open>savedAuth\<close>, as \<open>tokenSave\<close> writes it. A field that is \<open>undefined\<close>
  (or was removed by \<open>delete\<close>) is \<open>None\<close>. Tokens are strings.
\<close>

record auth =
  refreshToken :: "string option"
  accessToken :: "string option"
  accessExpires :: jsnum
  authScopes :: "string list option"

text \<open>\<open>if (t)\<close> for an optional string.\<close>

definition present :: "string option \<Rightarrow> bool" where
  "present t = (case t of None \<Rightarrow> False | Some v \<Rightarrow> v \<noteq> [])"

text \<open>
  The promise returned by \<open>sleep\<close>, seen from the one who may settle it:
  \<open>sleepReject[id]\<close> is the \<open>reject\<close> of the latest sleep with that id, and calling it
  on a promise that is already settled does nothing.
\<close>

datatype promise = Pending | Fulfilled | Rejected

text \<open>What the client has emitted as an \<open>EventEmitter\<close>.\<close>

datatype emitted =
    AuthUri "string option"
  | AuthSave
  | ApplianceEvent string "(string \<times> json) list"

record api =
  clientID :: string
  simulator :: bool
  savedAuth :: "string \<rightharpoonup> auth"
  scopes :: "string list"
  authResolve :: nat
  sleepReject :: "string \<rightharpoonup> promise"
  earliestRetry :: int
  requestCount :: nat
  emits :: "emitted list"

text \<open>A thrown JavaScript error: its kind and the \<open>retry\<close> property the client may set.\<close>

datatype errkind =
    StatusCodeErr
  | RequestErr
  | TypeErr
  | ReferenceErr
  | SyntaxErr
  | PlainErr

record err =
  kind :: errkind
  retry :: bool

datatype 'a result = Return 'a | Throw err

text \<open>
  An HTTP response that the \<open>request\<close> library reports as a \<open>StatusCodeError\<close>, or hands
  to the \<open>complete\<close> handler of a stream. \<open>retry_after\<close> is the numeric value of
  \<open>headers['retry-after']\<close>, as \<open>delaySeconds * MS\<close> reads it (\<open>NaN\<close> when the header is
  absent or not a number). \<open>errorBody\<close> is the body as a JSON value: \<open>response.body\<close> of a
  \<open>json: true\<close> request, and what \<open>parseJSON\<close> makes of the text otherwise (\<open>None\<close>: no
  body, or not JSON; neither has a property to read).
\<close>

record response =
  statusCode :: int
  location :: "string option"
  retry_after :: jsnum
  errorBody :: "json option"

text \<open>
  How \<open>requestPromise(options)\<close> settles: fulfilled with the body (typed by the caller),
  rejected with a \<open>StatusCodeError\<close>, or rejected with any other error.
\<close>

datatype 'a outcome =
    Ok 'a
  | StatusCodeError response
  | RequestError

text \<open>
  What \<open>requestRaw\<close> returns: the body, the \<open>location\<close> of an expected redirect
  (a string or \<open>undefined\<close>), or \<open>null\<close> while authorisation is pending.
\<close>

datatype 'a ret = Body 'a | Location "string option" | Null

record options =
  json :: bool
  followRedirect :: "bool option"

section \<open>Scope checks\<close>

text \<open>
  \<open>/^([^-]+)-([^-]+)$/.exec(scope)\<close>: the first group is the longest hyphen-free prefix
  (it cannot stop earlier, the next character must be the hyphen), the second group is
  everything after that hyphen and must be hyphen-free too; both are non-empty.
\<close>

definition parsedScope :: "string \<Rightarrow> (string \<times> string) option" where
  "parsedScope scope =
     (let row = takeWhile (\<lambda>c. c \<noteq> CHR ''-'') scope;
          rest = dropWhile (\<lambda>c. c \<noteq> CHR ''-'') scope
      in case rest of
           [] \<Rightarrow> None
         | _ # column \<Rightarrow>
             if row \<noteq> [] \<and> column \<noteq> [] \<and> CHR ''-'' \<notin> set column
             then Some (row, column) else None)"

definition hasScope :: "api \<Rightarrow> string \<Rightarrow> bool" where
  "hasScope s scope =
     (if scope \<in> set (scopes s) then True
      else case parsedScope scope of
             Some (row, column) \<Rightarrow>
               if row \<in> set (scopes s) then True
               else if column \<in> set (scopes s) then True
               else False
           | None \<Rightarrow> False)"

section \<open>Sleeping and waking\<close>

text \<open>
  \<open>sleep(milliseconds, id)\<close> registers the \<open>reject\<close> of its promise under \<open>id\<close>, when
  one is given; the timer that fulfils the promise is an input of the model.
\<close>

definition sleep :: "string option \<Rightarrow> api \<Rightarrow> api" where
  "sleep ident s =
     (case ident of
        Some i \<Rightarrow> if i \<noteq> [] then s\<lparr>sleepReject := (sleepReject s)(i \<mapsto> Pending)\<rparr> else s
      | None \<Rightarrow> s)"

definition wake :: "string \<Rightarrow> api \<Rightarrow> api" where
  "wake ident s =
     (case sleepReject s ident of
        Some Pending \<Rightarrow> s\<lparr>sleepReject := (sleepReject s)(ident \<mapsto> Rejected)\<rparr>
      | _ \<Rightarrow> s)"

text \<open>The timer of a sleep fires: \<open>resolve\<close> is called, which settles a pending promise.\<close>

definition timerFires :: "string \<Rightarrow> api \<Rightarrow> api" where
  "timerFires ident s =
     (case sleepReject s ident of
        Some Pending \<Rightarrow> s\<lparr>sleepReject := (sleepReject s)(ident \<mapsto> Fulfilled)\<rparr>
      | _ \<Rightarrow> s)"

section \<open>The saved authorisation\<close>

datatype waited = Immediately | Queued

definition waitUntilAuthorised :: "int \<Rightarrow> api \<Rightarrow> waited \<times> api" where
  "waitUntilAuthorised now s =
     (case savedAuth s (clientID s) of
        Some a \<Rightarrow>
          if present (accessToken a) \<and> jsLt (Num now) (accessExpires a)
          then (Immediately, s)
          else (Queued, s\<lparr>authResolve := authResolve s + 1\<rparr>)
      | None \<Rightarrow> (Queued, s\<lparr>authResolve := authResolve s + 1\<rparr>))"

text \<open>
  \<open>this.savedAuth[this.clientID].accessToken\<close> is a \<open>TypeError\<close> when there is no entry.
\<close>

definition getAuthorisation :: "api \<Rightarrow> string result" where
  "getAuthorisation s =
     (case savedAuth s (clientID s) of
        None \<Rightarrow> Throw \<lparr>kind = TypeErr, retry = False\<rparr>
      | Some a \<Rightarrow>
          (case accessToken a of
             None \<Rightarrow> Throw \<lparr>kind = PlainErr, retry = False\<rparr>
           | Some t \<Rightarrow>
               if t = [] then Throw \<lparr>kind = PlainErr, retry = False\<rparr>
               else Return (''Bearer '' @ t)))"

text \<open>The token object of a successful request to the token endpoint.\<close>

record token =
  refresh_token :: "string option"
  access_token :: "string option"
  expires_in :: jsnum

text \<open>
  \<open>tokenSave(token)\<close> reads three properties of whatever the flow returned: that is a
  \<open>TypeError\<close> on \<open>null\<close> and \<open>undefined\<close>, and \<open>undefined\<close> three times on a string.
\<close>

definition tokenFields :: "token option ret \<Rightarrow> token result" where
  "tokenFields t =
     (case t of
        Body (Some tok) \<Rightarrow> Return tok
      | Body None \<Rightarrow> Throw \<lparr>kind = TypeErr, retry = False\<rparr>
      | Location (Some u) \<Rightarrow>
          Return \<lparr>refresh_token = None, access_token = None, expires_in = NaN\<rparr>
      | Location None \<Rightarrow> Throw \<lparr>kind = TypeErr, retry = False\<rparr>
      | Null \<Rightarrow> Throw \<lparr>kind = TypeErr, retry = False\<rparr>)"

definition tokenSave :: "token option ret \<Rightarrow> int \<Rightarrow> api \<Rightarrow> unit result \<times> api" where
  "tokenSave t now s =
     (case tokenFields t of
        Throw e \<Rightarrow> (Throw e, s)
      | Return tok \<Rightarrow>
          (Return (),
           s\<lparr>savedAuth := (savedAuth s)(clientID s \<mapsto>
                \<lparr>refreshToken = refresh_token tok,
                 accessToken = access_token tok,
                 accessExpires = jsAdd (Num now) (jsMul (expires_in tok) (Num MS)),
                 authScopes = Some (scopes s)\<rparr>),
              emits := emits s @ [AuthSave]\<rparr>))"

definition authInvalidate :: "api \<Rightarrow> api" where
  "authInvalidate s =
     wake ''refresh'' (s\<lparr>savedAuth := (savedAuth s)(clientID s := None)\<rparr>)"

definition tokenInvalidate :: "api \<Rightarrow> api" where
  "tokenInvalidate s =
     wake ''refresh''
       (case savedAuth s (clientID s) of
          Some a \<Rightarrow> s\<lparr>savedAuth := (savedAuth s)(clientID s \<mapsto> a\<lparr>accessToken := None\<rparr>)\<rparr>
        | None \<Rightarrow> s)"

section \<open>Rate limiting\<close>

text \<open>
  \<open>earliest\<close> is \<open>NaN\<close> when the delay is; \<open>this.earliestRetry < NaN\<close> is false, so the
  stored time is always a number.
\<close>

definition retryAfter :: "jsnum \<Rightarrow> int \<Rightarrow> api \<Rightarrow> api" where
  "retryAfter delaySeconds now s =
     (let earliest = jsAdd (Num now) (jsMul delaySeconds (Num MS))
      in if jsLt (Num (earliestRetry s)) earliest
         then (case earliest of Num e \<Rightarrow> s\<lparr>earliestRetry := e\<rparr> | NaN \<Rightarrow> s)
         else s)"

text \<open>
  \<open>sleep\<close> ends through \<open>setTimeout(resolve, milliseconds)\<close>. Node sets a delay above
  \<open>2^31 - 1\<close> or below 1 to 1 millisecond; a timer may fire late, not early.
\<close>

definition TIMEOUT_MAX :: int where "TIMEOUT_MAX = 2147483647"

definition setTimeoutDelay :: "int \<Rightarrow> int" where
  "setTimeoutDelay milliseconds =
     (if milliseconds < 1 \<or> TIMEOUT_MAX < milliseconds then 1 else milliseconds)"

text \<open>
  The head of the retry loop of \<open>getEvents\<close>: the time at which the attempt goes on, when
  the loop is entered at \<open>now\<close> and the timer of the sleep fires \<open>late\<close> milliseconds late.
\<close>

definition rateLimited :: "nat \<Rightarrow> int \<Rightarrow> api \<Rightarrow> int" where
  "rateLimited late now s =
     (let retryIn = earliestRetry s - now
      in if 0 < retryIn then now + setTimeoutDelay retryIn + int late else now)"

section \<open>Requests\<close>

text \<open>
  \<open>requestRaw(options)\<close>, given how the HTTP request settles and the time \<open>now\<close> at
  which it does. The \<open>switch\<close> statements compare with \<open>===\<close>, so only a JSON string can
  select a case; \<open>access_denied\<close> falls through to \<open>invalid_grant\<close> unless it is the
  refresh rate limit.
\<close>

definition requestRaw :: "options \<Rightarrow> 'a outcome \<Rightarrow> int \<Rightarrow> api \<Rightarrow> 'a ret result \<times> api" where
  "requestRaw opts out now s0 =
     (let s = s0\<lparr>requestCount := requestCount s0 + 1\<rparr>
      in case out of
           Ok b \<Rightarrow> (Return (Body b), s)
         | RequestError \<Rightarrow> (Throw \<lparr>kind = RequestErr, retry = False\<rparr>, s)
         | StatusCodeError resp \<Rightarrow>
             if followRedirect opts \<noteq> Some True \<and> statusCode resp = 302
             then (Return (Location (location resp)), s)
             else
               let b = errorBody resp in
               if truthy b \<and> truthy (field b ''error_description'') then
                 (let error = field b ''error'' in
                  if error = Some (JStr ''authorization_pending'') then (Return Null, s)
                  else if error = Some (JStr ''access_denied'')
                          \<and> isTooManyRequests (the (field b ''error_description''))
                    then (Throw \<lparr>kind = StatusCodeErr, retry = True\<rparr>, s)
                  else if error = Some (JStr ''access_denied'')
                          \<or> error = Some (JStr ''invalid_grant'')
                          \<or> error = Some (JStr ''expired_token'')
                    then (Throw \<lparr>kind = StatusCodeErr, retry = False\<rparr>, authInvalidate s)
                  else if error = Some (JStr ''unauthorized_client'')
                    then (Throw \<lparr>kind = StatusCodeErr, retry = False\<rparr>, authInvalidate s)
                  else (Throw \<lparr>kind = StatusCodeErr, retry = False\<rparr>, s))
               else if truthy b \<and> truthy (field b ''error'')
                       \<and> truthy (field (field b ''error'') ''key'') then
                 (let key = field (field b ''error'') ''key'' in
                  if key = Some (JStr ''invalid_token'')
                    then (Throw \<lparr>kind = StatusCodeErr, retry = False\<rparr>, tokenInvalidate s)
                  else if key = Some (JStr ''429'')
                    then (Throw \<lparr>kind = StatusCodeErr, retry = True\<rparr>,
                          retryAfter (retry_after resp) now s)
                  else (Throw \<lparr>kind = StatusCodeErr, retry = False\<rparr>, s))
               else (Throw \<lparr>kind = StatusCodeErr, retry = False\<rparr>, s))"

definition applianceOptions :: options where
  "applianceOptions = \<lparr>json = True, followRedirect = None\<rparr>"

text \<open>\<open>body && body.data\<close> on what \<open>requestRaw\<close> returned.\<close>

definition bodyData :: "json option ret \<Rightarrow> json option" where
  "bodyData r =
     (case r of
        Body b \<Rightarrow> andGet b ''data''
      | Location None \<Rightarrow> None
      | Location (Some u) \<Rightarrow> if u = [] then Some (JStr u) else None
      | Null \<Rightarrow> Some JNull)"

text \<open>
  A call of \<open>requestAppliances\<close> is a coroutine with two places to wait: the rate-limit
  sleep (the time for which its timer is set) and the request (the time at which it was
  issued). Other calls run while it waits, on the same \<open>api\<close>. \<open>Done\<close>: the promise of
  the call is settled, with the data or with the error.
\<close>

datatype call = Sleeping int | InFlight int | Done "json option result"

text \<open>
  The \<open>try\<close> block up to its \<open>await\<close>: the authorisation header is computed, and the
  request goes out at once. An error of \<open>getAuthorisation\<close> has no \<open>retry\<close> property, so
  the \<open>catch\<close> block throws it on.
\<close>

definition attempt :: "int \<Rightarrow> api \<Rightarrow> call \<times> api" where
  "attempt now s =
     (case getAuthorisation s of
        Throw e \<Rightarrow> (Done (Throw e), s)
      | Return authorization \<Rightarrow> (InFlight now, s))"

text \<open>
  The head of the retry loop: \<open>earliestRetry\<close> is read here, once; the call sleeps for
  \<open>retryIn\<close> when that is positive, and goes on with the attempt otherwise.
\<close>

definition requestAppliances_loop :: "int \<Rightarrow> api \<Rightarrow> call \<times> api" where
  "requestAppliances_loop now s =
     (let retryIn = earliestRetry s - now
      in if 0 < retryIn then (Sleeping (now + setTimeoutDelay retryIn), s)
         else attempt now s)"

text \<open>\<open>requestAppliances\<close> is called: the options are built and the loop is entered.\<close>

definition requestAppliances :: "int \<Rightarrow> api \<Rightarrow> call \<times> api" where
  "requestAppliances now s = requestAppliances_loop now s"

text \<open>What lets a call go on: the timer of its sleep fires, or its request settles.\<close>

datatype settles = Wakes | Answers "json option outcome"

text \<open>
  A call goes on, at the time \<open>now\<close> and on the state as it is then. After the sleep the
  attempt follows, without another look at \<open>earliestRetry\<close>. An error marked \<open>retry\<close>
  leads back to the head of the loop. \<open>None\<close>: this cannot happen to the call where it is
  (a timer does not fire early).
\<close>

fun requestAppliances_resume :: "int \<Rightarrow> settles \<Rightarrow> call \<Rightarrow> api \<Rightarrow> (call \<times> api) option" where
  "requestAppliances_resume now Wakes (Sleeping due) s =
     (if due \<le> now then Some (attempt now s) else None)"
| "requestAppliances_resume now (Answers out) (InFlight issued) s =
     (case requestRaw applianceOptions out now s of
        (Return b, s') \<Rightarrow> Some (Done (Return (bodyData b)), s')
      | (Throw e, s') \<Rightarrow>
          if \<not> retry e then Some (Done (Throw e), s')
          else Some (requestAppliances_loop now s'))"
| "requestAppliances_resume now r c s = None"

text \<open>
  Several calls on one \<open>api\<close>: a new call starts, or the call with the given number goes
  on. The calls are numbered in the order in which they start.
\<close>

datatype event = Starts | Resumes nat settles



section \<open>Event streams\<close>

text \<open>The character classes of the regular expressions: \<open>\w\<close>, \<open>\s\<close>, and what \<open>.\<close> excludes.\<close>

definition isWord :: "char \<Rightarrow> bool" where
  "isWord c =
     (let n = (of_char c :: nat)
      in (48 \<le> n \<and> n \<le> 57) \<or> (65 \<le> n \<and> n \<le> 90) \<or> n = 95 \<or> (97 \<le> n \<and> n \<le> 122))"

definition isSpace :: "char \<Rightarrow> bool" where
  "isSpace c =
     (let n = (of_char c :: nat)
      in (9 \<le> n \<and> n \<le> 13) \<or> n = 32 \<or> n = 160)"

definition isLineTerminator :: "char \<Rightarrow> bool" where
  "isLineTerminator c = (let n = (of_char c :: nat) in n = 10 \<or> n = 13)"

text \<open>
  \<open>/^(\w+):\s*(.*)$/.exec(line)\<close>: the key is the longest run of word characters and is
  followed by the colon; \<open>\s*\<close> takes all the white space that follows, and the value is
  the rest, which must hold no line terminator (giving white space back to the value
  cannot help the match, it only makes the value longer).
\<close>

definition fieldLine :: "string \<Rightarrow> (string \<times> string) option" where
  "fieldLine line =
     (let key = takeWhile isWord line;
          rest = dropWhile isWord line
      in case rest of
           [] \<Rightarrow> None
         | c # after \<Rightarrow>
             if key \<noteq> [] \<and> c = CHR '':'' then
               (let v = dropWhile isSpace after
                in if list_ex isLineTerminator v then None else Some (key, v))
             else None)"

text \<open>
  \<open>event[key] = value\<close> on the plain object \<open>event\<close>. The value stored under a key
  other than \<open>data\<close> is a string, and assigning a string to \<open>__proto__\<close> changes nothing.
\<close>

fun assign :: "string \<Rightarrow> json \<Rightarrow> (string \<times> json) list \<Rightarrow> (string \<times> json) list" where
  "assign k v [] = [(k, v)]"
| "assign k v (p # ps) = (if fst p = k then (k, v) # ps else p # assign k v ps)"

definition setProperty :: "string \<Rightarrow> json \<Rightarrow> (string \<times> json) list \<Rightarrow> (string \<times> json) list" where
  "setProperty k v event = (if k = ''__proto__'' then event else assign k v event)"

text \<open>
  The line callback of \<open>getEvents\<close>, on its variable \<open>event\<close>. \<open>JSON.parse\<close> is the
  argument \<open>parse\<close>; it throws a \<open>SyntaxError\<close> where \<open>parse\<close> gives \<open>None\<close>, and nothing
  around the call catches it.
\<close>

definition eventLine ::
  "(string \<Rightarrow> json option) \<Rightarrow> string \<Rightarrow> string \<Rightarrow> (string \<times> json) list \<Rightarrow> api
     \<Rightarrow> ((string \<times> json) list \<times> api) result" where
  "eventLine parse haid line event s =
     (if line = [] then
        (if event \<noteq> []
         then Return ([], s\<lparr>emits := emits s @ [ApplianceEvent haid event]\<rparr>)
         else Return ([], s))
      else if hd line = CHR '':'' then Return (event, s)
      else
        (case fieldLine line of
           None \<Rightarrow> Return (event, s)
         | Some (key, v) \<Rightarrow>
             if key = ''data'' \<and> v \<noteq> [] then
               (case parse v of
                  None \<Rightarrow> Throw \<lparr>kind = SyntaxErr, retry = False\<rparr>
                | Some d \<Rightarrow> Return (setProperty key d event, s))
             else Return (setProperty key (JStr v) event, s)))"

text \<open>\<open>chunk.split(/\r?\n/)\<close>.\<close>

fun splitLines :: "string \<Rightarrow> string list" where
  "splitLines [] = [[]]"
| "splitLines (c # cs) =
     (if c = CHR 0x0A then [] # splitLines cs
      else if c = CHR 0x0D \<and> cs \<noteq> [] \<and> hd cs = CHR 0x0A then [] # splitLines (tl cs)
      else (case splitLines cs of
              [] \<Rightarrow> [[c]]
            | l # ls \<Rightarrow> (c # l) # ls))"

text \<open>
  One stream, from \<open>requestStream\<close> on: the flag \<open>aborted\<close>, the variable \<open>event\<close> of
  the line callback, how the promise of \<open>requestStream\<close> is settled (if it is), and
  whether \<open>streamAbort[haid]\<close> still holds the abort function of this stream.
\<close>

record stream =
  aborted :: bool
  event :: "(string \<times> json) list"
  settled :: "unit result option"
  registered :: bool

definition requestStream :: "api \<Rightarrow> stream \<times> api" where
  "requestStream s =
     (\<lparr>aborted = False, event = [], settled = None, registered = True\<rparr>,
      s\<lparr>requestCount := requestCount s + 1\<rparr>)"

text \<open>\<open>resolve\<close> and \<open>reject\<close> settle the promise once; later calls do nothing.\<close>

definition settle :: "unit result \<Rightarrow> stream \<Rightarrow> stream" where
  "settle r st = (case settled st of None \<Rightarrow> st\<lparr>settled := Some r\<rparr> | Some _ \<Rightarrow> st)"

text \<open>
  The abort function that \<open>requestStream\<close> stores in \<open>streamAbort[token]\<close>:
  \<open>aborted = true; req.abort(); resolve()\<close>. An aborted request delivers nothing more.
\<close>

definition abort :: "stream \<Rightarrow> stream" where
  "abort st = settle (Return ()) (st\<lparr>aborted := True\<rparr>)"

text \<open>\<open>stopEvents(haid)\<close>, for the stream of that appliance.\<close>

definition stopEvents :: "stream \<Rightarrow> stream" where
  "stopEvents st = (if registered st then (abort st)\<lparr>registered := False\<rparr> else st)"

text \<open>
  \<open>line => { if (!aborted) callback(line) }\<close>, for each line of a chunk in turn. The
  first component of the result is the error of a callback that threw; nothing catches
  it, and the lines after it are not delivered.
\<close>

fun callbackLines ::
  "(string \<Rightarrow> json option) \<Rightarrow> string \<Rightarrow> string list \<Rightarrow> stream \<Rightarrow> api
     \<Rightarrow> err option \<times> stream \<times> api" where
  "callbackLines parse haid [] st s = (None, st, s)"
| "callbackLines parse haid (line # others) st s =
     (if aborted st then callbackLines parse haid others st s
      else case eventLine parse haid line (event st) s of
             Throw e \<Rightarrow> (Some e, st, s)
           | Return (ev, s') \<Rightarrow> callbackLines parse haid others (st\<lparr>event := ev\<rparr>) s')"

text \<open>
  The \<open>complete\<close> handler of \<open>requestStreamRaw\<close>, up to its call of \<open>callbackDone\<close>, whose
  argument it returns. In the case \<open>'429'\<close> the handler reads \<open>err.response\<close>, and no
  \<open>err\<close> is in scope there: a \<open>ReferenceError\<close>, before \<open>retryAfter\<close> is reached.
\<close>

definition requestStreamRaw_complete :: "response \<Rightarrow> api \<Rightarrow> (err option \<times> api) result" where
  "requestStreamRaw_complete resp s =
     (let b = errorBody resp;
          callbackDone = (\<lambda>s'. Return (if statusCode resp = 200 then None
                                        else Some \<lparr>kind = PlainErr, retry = False\<rparr>, s'))
      in if truthy b \<and> truthy (field b ''error'')
            \<and> truthy (field (field b ''error'') ''key'') then
           (let key = field (field b ''error'') ''key'' in
            if key = Some (JStr ''invalid_token'') then callbackDone (tokenInvalidate s)
            else if key = Some (JStr ''429'')
              then Throw \<lparr>kind = ReferenceErr, retry = False\<rparr>
            else callbackDone s)
         else callbackDone s)"

text \<open>
  What happens to a stream: a chunk of a response with status 200 arrives, \<open>stopEvents\<close>
  is called, the request completes, or it fails with an error event.
\<close>

datatype happening = Chunk string | StopEvents | Completed response | Errored

text \<open>
  One happening. The first component of the result is the error of a handler that
  threw, which nothing catches.
\<close>

definition streamStep ::
  "(string \<Rightarrow> json option) \<Rightarrow> string \<Rightarrow> happening \<Rightarrow> stream \<Rightarrow> api
     \<Rightarrow> err option \<times> stream \<times> api" where
  "streamStep parse haid h st s =
     (case h of
        Chunk chunk \<Rightarrow> callbackLines parse haid (splitLines chunk) st s
      | StopEvents \<Rightarrow> (None, stopEvents st, s)
      | Completed resp \<Rightarrow>
          (case requestStreamRaw_complete resp s of
             Throw e \<Rightarrow> (Some e, st, s)
           | Return (None, s') \<Rightarrow> (None, settle (Return ()) st, s')
           | Return (Some e, s') \<Rightarrow> (None, settle (Throw e) st, s'))
      | Errored \<Rightarrow> (None, settle (Throw \<lparr>kind = RequestErr, retry = False\<rparr>) st, s))"

text \<open>The happenings in turn, up to the first handler that throws.\<close>

fun streamRun ::
  "(string \<Rightarrow> json option) \<Rightarrow> string \<Rightarrow> happening list \<Rightarrow> stream \<Rightarrow> api
     \<Rightarrow> err option \<times> stream \<times> api" where
  "streamRun parse haid [] st s = (None, st, s)"
| "streamRun parse haid (h # hs) st s =
     (case streamStep parse haid h st s of
        (Some e, st', s') \<Rightarrow> (Some e, st', s')
      | (None, st', s') \<Rightarrow> streamRun parse haid hs st' s')"

text \<open>
  How a call of \<open>getEvents\<close> ends: its promise is fulfilled, it is rejected with an
  error, or a handler of the stream threw and the promise stays pending for ever.
\<close>

datatype ending = Fulfils | Rejects err | Uncaught err

record streamAttempt =
  wakesLate :: nat
  happenings :: "happening list"
  lasts :: nat

text \<open>
  \<open>getEvents\<close>: the retry loop over the streams it starts, one per attempt. \<open>None\<close>: the
  call is still waiting for its stream when the happenings end.
\<close>

fun getEvents ::
  "(string \<Rightarrow> json option) \<Rightarrow> string \<Rightarrow> streamAttempt list \<Rightarrow> int \<Rightarrow> api
     \<Rightarrow> (ending \<times> api) option" where
  "getEvents parse haid [] now s = None"
| "getEvents parse haid (a # rest) now s =
     (let issue = rateLimited (wakesLate a) now s in
      case getAuthorisation s of
        Throw e \<Rightarrow> Some (Rejects e, s)
      | Return authorization \<Rightarrow>
          (case requestStream s of (st0, s0) \<Rightarrow>
             (case streamRun parse haid (happenings a) st0 s0 of
                (Some e, st, s') \<Rightarrow> Some (Uncaught e, s')
              | (None, st, s') \<Rightarrow>
                  (case settled st of
                     None \<Rightarrow> None
                   | Some (Return u) \<Rightarrow> Some (Fulfils, s')
                   | Some (Throw e) \<Rightarrow>
                       if \<not> retry e then Some (Rejects e, s')
                       else getEvents parse haid rest (issue + int (lasts a)) s'))))"

section \<open>The authorisation loop\<close>

text \<open>
  \<open>authoriseClient\<close> is a coroutine that never returns. The model names the places
  where it is suspended in an \<open>await\<close>, and gives the synchronous code between two of
  them as a step: what resumes the coroutine, and the time at which that happens.
\<close>

text \<open>The object returned by the device authorisation request, as far as it is read.\<close>

record deviceResponse =
  verification_uri_complete :: "string option"
  interval :: jsnum
  device_code :: "string option"

datatype waiting =
    AwaitDeviceAuthorization
  | AwaitPollSleep deviceResponse
  | AwaitPoll deviceResponse
  | AwaitAuthorize
  | AwaitCodeToken
  | AwaitRefreshSleep jsnum
  | AwaitRefresh
  | AwaitRetrySleep int

text \<open>
  What resumes the coroutine: the timer of the sleep it awaits fires, that sleep is
  rejected (by \<open>wake\<close>), or the request it awaits settles.
\<close>

datatype resumption =
    Timer
  | Rejection
  | DeviceAnswer "deviceResponse option outcome"
  | TokenAnswer "token option outcome"
  | AuthorizeAnswer "string option outcome"

text \<open>The requests of the flows: all but the \<open>authorize\<close> request have \<open>json: true\<close>.\<close>

definition formOptions :: options where
  "formOptions = \<lparr>json = True, followRedirect = None\<rparr>"

definition authorizeOptions :: options where
  "authorizeOptions = \<lparr>json = False, followRedirect = Some False\<rparr>"

text \<open>\<open>!token\<close> on what \<open>requestRaw\<close> returned.\<close>

definition falsy :: "'a option ret \<Rightarrow> bool" where
  "falsy t =
     (case t of
        Body None \<Rightarrow> True
      | Body (Some b) \<Rightarrow> False
      | Location None \<Rightarrow> True
      | Location (Some u) \<Rightarrow> u = []
      | Null \<Rightarrow> True)"

text \<open>\<open>url.parse(location)\<close> throws a \<open>TypeError\<close> unless \<open>location\<close> is a string.\<close>

definition isString :: "string option ret \<Rightarrow> bool" where
  "isString t =
     (case t of
        Body None \<Rightarrow> False
      | Body (Some b) \<Rightarrow> True
      | Location None \<Rightarrow> False
      | Location (Some u) \<Rightarrow> True
      | Null \<Rightarrow> False)"

text \<open>Reading the properties of \<open>resp\<close> in \<open>authDeviceFlow\<close>, as \<open>tokenFields\<close> does for a token.\<close>

definition deviceFields :: "deviceResponse option ret \<Rightarrow> deviceResponse result" where
  "deviceFields t =
     (case t of
        Body (Some d) \<Rightarrow> Return d
      | Body None \<Rightarrow> Throw \<lparr>kind = TypeErr, retry = False\<rparr>
      | Location (Some u) \<Rightarrow>
          Return \<lparr>verification_uri_complete = None, interval = NaN, device_code = None\<rparr>
      | Location None \<Rightarrow> Throw \<lparr>kind = TypeErr, retry = False\<rparr>
      | Null \<Rightarrow> Throw \<lparr>kind = TypeErr, retry = False\<rparr>)"

text \<open>The \<open>catch\<close> block of the outer loop, up to its sleep.\<close>

definition catchBlock :: "api \<Rightarrow> waiting \<times> api" where
  "catchBlock s =
     (let s1 = tokenInvalidate s;
          retryIn = (if savedAuth s1 (clientID s1) \<noteq> None
                     then REFRESH_RETRY_DELAY else AUTH_RETRY_DELAY)
      in (AwaitRetrySleep (retryIn * MS), sleep None s1))"

text \<open>
  The head of the inner loop, up to the next \<open>await\<close>: the refresh sleep, or the refresh
  request at once. (\<open>auth.accessExpires\<close> would be a \<open>TypeError\<close> without a record.)
\<close>

definition refreshLoop :: "int \<Rightarrow> api \<Rightarrow> waiting \<times> api" where
  "refreshLoop now s =
     (case savedAuth s (clientID s) of
        None \<Rightarrow> catchBlock s
      | Some a \<Rightarrow>
          (let refreshIn = jsSub (jsSub (accessExpires a) (Num now))
                                 (Num (TOKEN_REFRESH_WINDOW * MS))
           in if present (accessToken a) \<and> jsLt (Num 0) refreshIn
              then (AwaitRefreshSleep refreshIn,
                    sleep (Some ''refresh'') (s\<lparr>authResolve := 0\<rparr>))
              else (AwaitRefresh, s)))"

text \<open>\<open>this.tokenSave(token)\<close> and on into the inner loop.\<close>

definition granted :: "token option ret \<Rightarrow> int \<Rightarrow> api \<Rightarrow> waiting \<times> api" where
  "granted t now s =
     (case tokenSave t now s of
        (Throw e, s') \<Rightarrow> catchBlock s'
      | (Return u, s') \<Rightarrow> refreshLoop now s')"

text \<open>
  The head of the outer loop, which is also where \<open>authoriseClient\<close> starts: without a
  saved record the authorisation flow begins (with its first request), otherwise the
  saved scopes are taken over and the inner loop is entered.
\<close>

definition authoriseClient :: "int \<Rightarrow> api \<Rightarrow> waiting \<times> api" where
  "authoriseClient now s =
     (case savedAuth s (clientID s) of
        None \<Rightarrow> if simulator s then (AwaitAuthorize, s) else (AwaitDeviceAuthorization, s)
      | Some a \<Rightarrow>
          (case authScopes a of
             Some granted_scopes \<Rightarrow> refreshLoop now (s\<lparr>scopes := granted_scopes\<rparr>)
           | None \<Rightarrow> refreshLoop now s))"

text \<open>
  One step of the coroutine, from one \<open>await\<close> to the next. \<open>None\<close>: this resumption
  cannot happen at this place.
\<close>

fun resume :: "int \<Rightarrow> resumption \<Rightarrow> waiting \<Rightarrow> api \<Rightarrow> (waiting \<times> api) option" where
  "resume now (DeviceAnswer out) AwaitDeviceAuthorization s =
     (case requestRaw formOptions out now s of
        (Throw e, s') \<Rightarrow> Some (catchBlock s')
      | (Return r, s') \<Rightarrow>
          (case deviceFields r of
             Throw e \<Rightarrow> Some (catchBlock s')
           | Return resp \<Rightarrow>
               Some (AwaitPollSleep resp,
                     sleep None (s'\<lparr>emits := emits s' @ [AuthUri (verification_uri_complete resp)]\<rparr>))))"
| "resume now Timer (AwaitPollSleep resp) s = Some (AwaitPoll resp, s)"
| "resume now (TokenAnswer out) (AwaitPoll resp) s =
     (case requestRaw formOptions out now s of
        (Throw e, s') \<Rightarrow> Some (catchBlock s')
      | (Return t, s') \<Rightarrow>
          if falsy t then Some (AwaitPollSleep resp, sleep None s')
          else Some (granted t now s'))"
| "resume now (AuthorizeAnswer out) AwaitAuthorize s =
     (case requestRaw authorizeOptions out now s of
        (Throw e, s') \<Rightarrow> Some (catchBlock s')
      | (Return l, s') \<Rightarrow>
          if isString l then Some (AwaitCodeToken, s') else Some (catchBlock s'))"
| "resume now (TokenAnswer out) AwaitCodeToken s =
     (case requestRaw formOptions out now s of
        (Throw e, s') \<Rightarrow> Some (catchBlock s')
      | (Return t, s') \<Rightarrow> Some (granted t now s'))"
| "resume now Timer (AwaitRefreshSleep refreshIn) s =
     (if sleepReject s ''refresh'' = Some Pending
      then Some (AwaitRefresh, timerFires ''refresh'' s) else None)"
| "resume now Rejection (AwaitRefreshSleep refreshIn) s =
     (if sleepReject s ''refresh'' = Some Rejected then Some (catchBlock s) else None)"
| "resume now (TokenAnswer out) AwaitRefresh s =
     (case requestRaw formOptions out now s of
        (Throw e, s') \<Rightarrow> Some (catchBlock s')
      | (Return t, s') \<Rightarrow>
          if falsy t then Some (catchBlock s') else Some (granted t now s'))"
| "resume now Timer (AwaitRetrySleep d) s = Some (authoriseClient now s)"
| "resume now r w s = None"

text \<open>The coroutine over a list of resumptions, each with its time.\<close>

fun resumes :: "(int \<times> resumption) list \<Rightarrow> waiting \<times> api \<Rightarrow> (waiting \<times> api) option" where
  "resumes [] ws = Some ws"
| "resumes ((now, r) # rs) (w, s) =
     (case resume now r w s of
        None \<Rightarrow> None
      | Some ws' \<Rightarrow> resumes rs ws')"

section \<open>Sample states\<close>

text \<open>Concrete states and inputs, on which the theorems below are instantiated.\<close>

definition grantedOven :: api where
  "grantedOven = \<lparr>clientID = ''c'', simulator = False, savedAuth = Map.empty,
     scopes = [''Monitor'', ''Oven''], authResolve = 0, sleepReject = Map.empty,
     earliestRetry = 0, requestCount = 0, emits = []\<rparr>"

definition authorised :: api where
  "authorised = \<lparr>clientID = ''c'', simulator = False,
     savedAuth = [''c'' \<mapsto> \<lparr>refreshToken = Some ''r'', accessToken = Some ''a'',
                            accessExpires = Num 90000000, authScopes = Some [''Monitor'']\<rparr>],
     scopes = [''Monitor''], authResolve = 0, sleepReject = Map.empty,
     earliestRetry = 0, requestCount = 0, emits = []\<rparr>"

definition invalidToken :: response where
  "invalidToken = \<lparr>statusCode = 401, location = None, retry_after = NaN,
     errorBody = Some (JObj [(''error'', JObj [(''key'', JStr ''invalid_token''),
                                               (''description'', JStr ''Invalid token'')])])\<rparr>"

definition tooMany :: response where
  "tooMany = \<lparr>statusCode = 429, location = None, retry_after = Num 5,
     errorBody = Some (JObj [(''error'', JObj [(''key'', JStr ''429''),
                                               (''description'', JStr ''Rate limit'')])])\<rparr>"





text \<open>
  A decoder for a fragment of JSON (no escapes in strings, integers only, no repeated
  keys), to stand for \<open>JSON.parse\<close> on the sample inputs; the number is the fuel.
\<close>

definition isDigit :: "char \<Rightarrow> bool" where
  "isDigit c = (let n = (of_char c :: nat) in 48 \<le> n \<and> n \<le> 57)"

definition jsonSpace :: "char \<Rightarrow> bool" where
  "jsonSpace c = (let n = (of_char c :: nat) in n = 32 \<or> n = 9 \<or> n = 10 \<or> n = 13)"

definition decodeString :: "string \<Rightarrow> (string \<times> string) option" where
  "decodeString t =
     (let chars = takeWhile (\<lambda>c. c \<noteq> CHR 0x22) t;
          rest = dropWhile (\<lambda>c. c \<noteq> CHR 0x22) t
      in if rest = [] \<or> list_ex (\<lambda>c. c = CHR 0x5C \<or> (of_char c :: nat) < 32) chars
         then None else Some (chars, tl rest))"

definition decodeNumber :: "string \<Rightarrow> (json \<times> string) option" where
  "decodeNumber t =
     (let negative = (t \<noteq> [] \<and> hd t = CHR ''-'');
          u = (if negative then tl t else t);
          digits = takeWhile isDigit u;
          rest = dropWhile isDigit u;
          n = foldl (\<lambda>a c. a * 10 + (int (of_char c) - 48)) 0 digits
      in if digits = [] \<or> (hd digits = CHR ''0'' \<and> length digits \<noteq> 1)
            \<or> (rest \<noteq> [] \<and> hd rest \<in> set ''.eE'')
         then None else Some (JNum (if negative then - n else n), rest))"

fun decodeValue :: "nat \<Rightarrow> string \<Rightarrow> (json \<times> string) option"
  and decodeElements :: "nat \<Rightarrow> string \<Rightarrow> (json list \<times> string) option"
  and decodeMembers :: "nat \<Rightarrow> string \<Rightarrow> ((string \<times> json) list \<times> string) option" where
  "decodeValue 0 t = None"
| "decodeValue (Suc n) t =
     (case dropWhile jsonSpace t of
        [] \<Rightarrow> None
      | c # cs \<Rightarrow>
          if c = CHR ''{'' then
            (case dropWhile jsonSpace cs of
               [] \<Rightarrow> None
             | d # ds \<Rightarrow>
                 if d = CHR ''}'' then Some (JObj [], ds)
                 else (case decodeMembers n (d # ds) of
                         None \<Rightarrow> None
                       | Some (ms, r) \<Rightarrow>
                           if distinct (map fst ms) then Some (JObj ms, r) else None))
          else if c = CHR ''['' then
            (case dropWhile jsonSpace cs of
               [] \<Rightarrow> None
             | d # ds \<Rightarrow>
                 if d = CHR '']'' then Some (JArr [], ds)
                 else map_option (\<lambda>(vs, r). (JArr vs, r)) (decodeElements n (d # ds)))
          else if c = CHR 0x22 then map_option (\<lambda>(str, r). (JStr str, r)) (decodeString cs)
          else if isDigit c \<or> c = CHR ''-'' then decodeNumber (c # cs)
          else if take 4 (c # cs) = ''true'' then Some (JBool True, drop 4 (c # cs))
          else if take 5 (c # cs) = ''false'' then Some (JBool False, drop 5 (c # cs))
          else if take 4 (c # cs) = ''null'' then Some (JNull, drop 4 (c # cs))
          else None)"
| "decodeElements 0 t = None"
| "decodeElements (Suc n) t =
     (case decodeValue n t of
        None \<Rightarrow> None
      | Some (v, r) \<Rightarrow>
          (case dropWhile jsonSpace r of
             [] \<Rightarrow> None
           | c # cs \<Rightarrow>
               if c = CHR '','' then map_option (\<lambda>(vs, r'). (v # vs, r')) (decodeElements n cs)
               else if c = CHR '']'' then Some ([v], cs)
               else None))"
| "decodeMembers 0 t = None"
| "decodeMembers (Suc n) t =
     (case dropWhile jsonSpace t of
        [] \<Rightarrow> None
      | c # cs \<Rightarrow>
          if c \<noteq> CHR 0x22 then None
          else
            (case decodeString cs of
               None \<Rightarrow> None
             | Some (k, r) \<Rightarrow>
                 (case dropWhile jsonSpace r of
                    [] \<Rightarrow> None
                  | c2 # r2 \<Rightarrow>
                      if c2 \<noteq> CHR '':'' then None
                      else
                        (case decodeValue n r2 of
                           None \<Rightarrow> None
                         | Some (v, r3) \<Rightarrow>
                             (case dropWhile jsonSpace r3 of
                                [] \<Rightarrow> None
                              | c3 # r4 \<Rightarrow>
                                  if c3 = CHR '','' then
                                    map_option (\<lambda>(ms, r'). ((k, v) # ms, r')) (decodeMembers n r4)
                                  else if c3 = CHR ''}'' then Some ([(k, v)], r4)
                                  else None)))))"

definition decodeSample :: "string \<Rightarrow> json option" where
  "decodeSample t =
     (case decodeValue (Suc (length t)) t of
        None \<Rightarrow> None
      | Some (v, r) \<Rightarrow> if dropWhile jsonSpace r = [] then Some v else None)"

definition invalidGrant :: response where
  "invalidGrant = \<lparr>statusCode = 400, location = None, retry_after = NaN,
     errorBody = Some (JObj [(''error'', JStr ''invalid_grant''),
                             (''error_description'', JStr ''refresh token is invalid'')])\<rparr>"

definition authorizationPending :: response where
  "authorizationPending = \<lparr>statusCode = 400, location = None, retry_after = NaN,
     errorBody = Some (JObj [(''error'', JStr ''authorization_pending''),
                             (''error_description'', JStr ''waiting for the user'')])\<rparr>"

definition unauthorised :: api where
  "unauthorised = \<lparr>clientID = ''c'', simulator = False, savedAuth = Map.empty,
     scopes = [''Monitor''], authResolve = 2, sleepReject = Map.empty,
     earliestRetry = 0, requestCount = 0, emits = []\<rparr>"

definition deviceFlowRun :: "(int \<times> resumption) list" where
  "deviceFlowRun =
     [(100, DeviceAnswer (Ok (Some \<lparr>verification_uri_complete = Some ''https://verify'',
                                     interval = Num 5, device_code = Some ''dc''\<rparr>))),
      (5100, Timer),
      (5200, TokenAnswer (StatusCodeError authorizationPending)),
      (10200, Timer),
      (10300, TokenAnswer (Ok (Some \<lparr>refresh_token = Some ''r'', access_token = Some ''a'',
                                      expires_in = Num 86400\<rparr>)))]"

section \<open>Properties of the scope check\<close>

lemma parsedScope_compound:
  assumes "x \<noteq> []" "y \<noteq> []" "CHR ''-'' \<notin> set x" "CHR ''-'' \<notin> set y"
  shows "parsedScope (x @ CHR ''-'' # y) = Some (x, y)"
proof -
  have t: "takeWhile (\<lambda>c. c \<noteq> CHR ''-'') (x @ CHR ''-'' # y) = x"
    using assms(3) by (induction x) auto
  have d: "dropWhile (\<lambda>c. c \<noteq> CHR ''-'') (x @ CHR ''-'' # y) = CHR ''-'' # y"
    using assms(3) by (induction x) auto
  show ?thesis
    unfolding parsedScope_def t d using assms by simp
qed

lemma parsedScope_Some:
  assumes "parsedScope n = Some (x, y)"
  shows "n = x @ CHR ''-'' # y \<and> x \<noteq> [] \<and> y \<noteq> [] \<and> CHR ''-'' \<notin> set x \<and> CHR ''-'' \<notin> set y"
proof -
  let ?P = "\<lambda>c. c \<noteq> CHR ''-''"
  from assms obtain c col where r: "dropWhile ?P n = c # col"
    by (auto simp: parsedScope_def Let_def split: list.splits)
  from assms r have xy: "x = takeWhile ?P n" "y = col" "x \<noteq> []" "y \<noteq> []" "CHR ''-'' \<notin> set y"
    by (auto simp: parsedScope_def Let_def split: if_splits)
  have "dropWhile ?P n \<noteq> []" using r by simp
  then have "\<not> ?P (hd (dropWhile ?P n))" by (rule hd_dropWhile)
  then have c: "c = CHR ''-''" using r by simp
  have "n = takeWhile ?P n @ dropWhile ?P n" by simp
  then have "n = x @ CHR ''-'' # y" using r xy c by simp
  moreover have "CHR ''-'' \<notin> set x" using xy(1) by (auto dest: set_takeWhileD)
  ultimately show ?thesis using xy by simp
qed

lemma parsedScope_two_hyphens:
  assumes "2 \<le> count_list n (CHR ''-'')"
  shows "parsedScope n = None"
proof (cases "parsedScope n")
  case None then show ?thesis .
next
  case (Some p)
  obtain x y where p: "p = (x, y)" by (cases p)
  from parsedScope_Some [OF Some [unfolded p]]
  have n: "n = x @ CHR ''-'' # y" and nx: "CHR ''-'' \<notin> set x" and ny: "CHR ''-'' \<notin> set y"
    by simp_all
  have "count_list n (CHR ''-'') = 1"
    unfolding n using nx ny by (simp add: count_list_0_iff)
  with assms show ?thesis by simp
qed

lemma Oven_Control: "parsedScope ''Oven-Control'' = Some (''Oven'', ''Control'')"
  by (simp add: parsedScope_def)

text \<open>
  Claim C4. \<open>hasScope\<close> is true when the requested name is itself granted, and when
  the name is \<open>X-Y\<close>, with \<open>X\<close> and \<open>Y\<close> non-empty and free of hyphens, and \<open>X\<close> or
  \<open>Y\<close> alone is granted. \<open>hasScope("Oven-Control")\<close> is true exactly when
  \<open>Oven-Control\<close>, \<open>Oven\<close> or \<open>Control\<close> is granted.
\<close>

theorem hasScope_literal_or_component:
  "(n \<in> set (scopes s) \<longrightarrow> hasScope s n)
   \<and> (x \<noteq> [] \<and> y \<noteq> [] \<and> CHR ''-'' \<notin> set x \<and> CHR ''-'' \<notin> set y
        \<and> (x \<in> set (scopes s) \<or> y \<in> set (scopes s))
      \<longrightarrow> hasScope s (x @ ''-'' @ y))
   \<and> (hasScope s ''Oven-Control''
        \<longleftrightarrow> ''Oven-Control'' \<in> set (scopes s) \<or> ''Oven'' \<in> set (scopes s)
            \<or> ''Control'' \<in> set (scopes s))"
proof (intro conjI impI)
  assume "n \<in> set (scopes s)"
  then show "hasScope s n" by (simp add: hasScope_def)
next
  assume a: "x \<noteq> [] \<and> y \<noteq> [] \<and> CHR ''-'' \<notin> set x \<and> CHR ''-'' \<notin> set y
        \<and> (x \<in> set (scopes s) \<or> y \<in> set (scopes s))"
  then have "parsedScope (x @ CHR ''-'' # y) = Some (x, y)"
    by (simp add: parsedScope_compound)
  with a show "hasScope s (x @ ''-'' @ y)" by (auto simp: hasScope_def)
next
  show "hasScope s ''Oven-Control''
        \<longleftrightarrow> ''Oven-Control'' \<in> set (scopes s) \<or> ''Oven'' \<in> set (scopes s)
            \<or> ''Control'' \<in> set (scopes s)"
    unfolding hasScope_def Oven_Control by auto
qed

theorem hasScope_literal_or_component_witness:
  "hasScope grantedOven ''Monitor'' \<and> hasScope grantedOven ''Oven-Control''
   \<and> \<not> hasScope (grantedOven\<lparr>scopes := [''Monitor'']\<rparr>) ''Oven-Control''"
  using hasScope_literal_or_component [of "''Monitor''" grantedOven "''Oven''" "''Control''"]
    hasScope_literal_or_component [of "''Monitor''" "grantedOven\<lparr>scopes := [''Monitor'']\<rparr>" "''Oven''" "''Control''"]
  by (simp add: grantedOven_def)

text \<open>
  Claim C10. For a name with two or more hyphens \<open>hasScope\<close> is literal membership;
  whenever \<open>hasScope\<close> is true of a name that is not itself granted, the name is \<open>X-Y\<close>
  with \<open>X\<close> and \<open>Y\<close> non-empty and free of hyphens, and \<open>X\<close> or \<open>Y\<close> is granted.
\<close>

theorem hasScope_many_hyphens:
  "(2 \<le> count_list n (CHR ''-'') \<longrightarrow> hasScope s n = (n \<in> set (scopes s)))
   \<and> (hasScope s n \<and> n \<notin> set (scopes s) \<longrightarrow>
        (\<exists>x y. n = x @ ''-'' @ y \<and> x \<noteq> [] \<and> y \<noteq> [] \<and> CHR ''-'' \<notin> set x
           \<and> CHR ''-'' \<notin> set y \<and> (x \<in> set (scopes s) \<or> y \<in> set (scopes s))))"
proof (intro conjI impI)
  assume "2 \<le> count_list n (CHR ''-'')"
  then have "parsedScope n = None" by (rule parsedScope_two_hyphens)
  then show "hasScope s n = (n \<in> set (scopes s))" by (simp add: hasScope_def)
next
  assume a: "hasScope s n \<and> n \<notin> set (scopes s)"
  then obtain x y where p: "parsedScope n = Some (x, y)"
    and m: "x \<in> set (scopes s) \<or> y \<in> set (scopes s)"
    by (auto simp: hasScope_def split: option.splits if_splits)
  from parsedScope_Some [OF p] m
  show "\<exists>x y. n = x @ ''-'' @ y \<and> x \<noteq> [] \<and> y \<noteq> [] \<and> CHR ''-'' \<notin> set x
           \<and> CHR ''-'' \<notin> set y \<and> (x \<in> set (scopes s) \<or> y \<in> set (scopes s))"
    by auto
qed

theorem hasScope_many_hyphens_witness:
  "2 \<le> count_list ''A-B-C'' (CHR ''-'')
   \<and> \<not> hasScope (grantedOven\<lparr>scopes := [''A'', ''B'', ''C'', ''A-B'', ''B-C'']\<rparr>) ''A-B-C''
   \<and> hasScope (grantedOven\<lparr>scopes := [''A-B-C'']\<rparr>) ''A-B-C''
   \<and> hasScope grantedOven ''Oven-Control'' \<and> ''Oven-Control'' \<notin> set (scopes grantedOven)
   \<and> (\<exists>x y. ''Oven-Control'' = x @ ''-'' @ y \<and> x \<noteq> [] \<and> y \<noteq> []
          \<and> CHR ''-'' \<notin> set x \<and> CHR ''-'' \<notin> set y
          \<and> (x \<in> set (scopes grantedOven) \<or> y \<in> set (scopes grantedOven)))"
proof -
  have o: "hasScope grantedOven ''Oven-Control'' \<and> ''Oven-Control'' \<notin> set (scopes grantedOven)"
    by (simp add: hasScope_def Oven_Control grantedOven_def)
  show ?thesis
    using hasScope_many_hyphens [of "''A-B-C''" "grantedOven\<lparr>scopes := [''A'', ''B'', ''C'', ''A-B'', ''B-C'']\<rparr>"]
      hasScope_many_hyphens [of "''A-B-C''" "grantedOven\<lparr>scopes := [''A-B-C'']\<rparr>"]
      hasScope_many_hyphens [of "''Oven-Control''" grantedOven] o
    by (simp add: grantedOven_def)
qed

section \<open>Properties of requests, tokens and the rate limit\<close>

lemma wake_frame [simp]:
  "savedAuth (wake i s) = savedAuth s" "clientID (wake i s) = clientID s"
  "scopes (wake i s) = scopes s" "earliestRetry (wake i s) = earliestRetry s"
  "requestCount (wake i s) = requestCount s" "authResolve (wake i s) = authResolve s"
  "emits (wake i s) = emits s" "simulator (wake i s) = simulator s"
  by (simp_all add: wake_def split: option.splits promise.splits)

lemma authInvalidate_frame [simp]:
  "clientID (authInvalidate s) = clientID s"
  "scopes (authInvalidate s) = scopes s" "earliestRetry (authInvalidate s) = earliestRetry s"
  "requestCount (authInvalidate s) = requestCount s" "authResolve (authInvalidate s) = authResolve s"
  "emits (authInvalidate s) = emits s" "simulator (authInvalidate s) = simulator s"
  by (simp_all add: authInvalidate_def)

lemma authInvalidate_savedAuth [simp]:
  "savedAuth (authInvalidate s) = (savedAuth s)(clientID s := None)"
  by (simp add: authInvalidate_def)

lemma tokenInvalidate_frame [simp]:
  "clientID (tokenInvalidate s) = clientID s"
  "scopes (tokenInvalidate s) = scopes s" "earliestRetry (tokenInvalidate s) = earliestRetry s"
  "requestCount (tokenInvalidate s) = requestCount s" "authResolve (tokenInvalidate s) = authResolve s"
  "emits (tokenInvalidate s) = emits s" "simulator (tokenInvalidate s) = simulator s"
  by (simp_all add: tokenInvalidate_def split: option.splits)

lemma tokenInvalidate_savedAuth:
  "savedAuth (tokenInvalidate s) =
     (case savedAuth s (clientID s) of
        Some a \<Rightarrow> (savedAuth s)(clientID s \<mapsto> a\<lparr>accessToken := None\<rparr>)
      | None \<Rightarrow> savedAuth s)"
  by (simp add: tokenInvalidate_def split: option.splits)

lemma retryAfter_frame [simp]:
  "savedAuth (retryAfter d now s) = savedAuth s" "clientID (retryAfter d now s) = clientID s"
  "scopes (retryAfter d now s) = scopes s"
  "requestCount (retryAfter d now s) = requestCount s" "authResolve (retryAfter d now s) = authResolve s"
  "emits (retryAfter d now s) = emits s" "simulator (retryAfter d now s) = simulator s"
  "sleepReject (retryAfter d now s) = sleepReject s"
  by (cases d; simp add: retryAfter_def Let_def)+
















text \<open>
  Claim C5. With a saved record that holds a non-empty access token and an expiry time
  still in the future, \<open>waitUntilAuthorised\<close> returns a resolved promise and leaves the
  whole state as it is: no request is counted and no resolver is queued.
\<close>

theorem waitUntilAuthorised_immediately:
  assumes "savedAuth s (clientID s) = Some a"
    and "accessToken a = Some t" and "t \<noteq> []"
    and "accessExpires a = Num e" and "now < e"
  shows "waitUntilAuthorised now s = (Immediately, s)"
  using assms by (simp add: waitUntilAuthorised_def present_def)

text \<open>
  Claim C1. An appliance-API error response is what \<open>requestRaw\<close> takes as one: a
  \<open>StatusCodeError\<close> that is not the expected redirect, whose body has no truthy
  \<open>error_description\<close> and an \<open>error\<close> object with a \<open>key\<close>. When the key is
  \<open>invalid_token\<close>, the request fails with a non-retryable error, and the record of the
  client id stays, with its access token removed and its refresh token, expiry time and
  scopes unchanged; the records of other client ids are untouched.
\<close>

theorem invalid_token_clears_accessToken:
  assumes "followRedirect opts = Some True \<or> statusCode r \<noteq> 302"
    and "errorBody r = Some b"
    and "\<not> truthy (get b ''error_description'')"
    and "get b ''error'' = Some e"
    and "get e ''key'' = Some (JStr ''invalid_token'')"
    and "savedAuth s (clientID s) = Some a"
    and "requestRaw opts (StatusCodeError r) now s = (res, s')"
  shows "res = Throw \<lparr>kind = StatusCodeErr, retry = False\<rparr>
    \<and> clientID s' = clientID s
    \<and> savedAuth s' (clientID s) = Some (a\<lparr>accessToken := None\<rparr>)
    \<and> refreshToken (a\<lparr>accessToken := None\<rparr>) = refreshToken a
    \<and> accessExpires (a\<lparr>accessToken := None\<rparr>) = accessExpires a
    \<and> authScopes (a\<lparr>accessToken := None\<rparr>) = authScopes a
    \<and> (\<forall>c. c \<noteq> clientID s \<longrightarrow> savedAuth s' c = savedAuth s c)"
proof -
  have te: "truthy (Some e)"
    using assms(5) by (cases e) simp_all
  have tb: "truthy (Some b)"
    using assms(4) by (cases b) simp_all
  have "(res, s')
        = (Throw \<lparr>kind = StatusCodeErr, retry = False\<rparr>,
           tokenInvalidate (s\<lparr>requestCount := requestCount s + 1\<rparr>))"
    unfolding assms(7) [symmetric]
    using assms(1-5) te tb by (auto simp: requestRaw_def Let_def field_def)
  then have res: "res = Throw \<lparr>kind = StatusCodeErr, retry = False\<rparr>"
    and s': "s' = tokenInvalidate (s\<lparr>requestCount := requestCount s + 1\<rparr>)"
    by simp_all
  show ?thesis
    using assms(6) by (simp add: res s' tokenInvalidate_savedAuth)
qed



lemma getAuthorisation_authorised: "getAuthorisation authorised = Return ''Bearer a''"
  by (simp add: getAuthorisation_def authorised_def)

theorem waitUntilAuthorised_immediately_witness:
  "savedAuth authorised (clientID authorised)
     = Some \<lparr>refreshToken = Some ''r'', accessToken = Some ''a'',
             accessExpires = Num 90000000, authScopes = Some [''Monitor'']\<rparr>
   \<and> waitUntilAuthorised 1000 authorised = (Immediately, authorised)"
  using waitUntilAuthorised_immediately [where s = authorised and t = "''a''"
      and e = 90000000 and now = 1000
      and a = "\<lparr>refreshToken = Some ''r'', accessToken = Some ''a'',
             accessExpires = Num 90000000, authScopes = Some [''Monitor'']\<rparr>"]
  by (simp add: authorised_def)

theorem invalid_token_clears_accessToken_witness:
  "savedAuth (snd (requestRaw applianceOptions (StatusCodeError invalidToken :: unit outcome) 1000 authorised)) ''c''
     = Some \<lparr>refreshToken = Some ''r'', accessToken = None,
             accessExpires = Num 90000000, authScopes = Some [''Monitor'']\<rparr>"
  using invalid_token_clears_accessToken [where opts = applianceOptions and r = invalidToken
      and b = "JObj [(''error'', JObj [(''key'', JStr ''invalid_token''),
                                      (''description'', JStr ''Invalid token'')])]"
      and e = "JObj [(''key'', JStr ''invalid_token''), (''description'', JStr ''Invalid token'')]"
      and s = authorised and now = 1000
      and a = "\<lparr>refreshToken = Some ''r'', accessToken = Some ''a'',
             accessExpires = Num 90000000, authScopes = Some [''Monitor'']\<rparr>"
      and res = "fst (requestRaw applianceOptions (StatusCodeError invalidToken :: unit outcome) 1000 authorised)"
      and s' = "snd (requestRaw applianceOptions (StatusCodeError invalidToken :: unit outcome) 1000 authorised)"]
  by (simp add: authorised_def invalidToken_def)





text \<open>
  A wait above \<open>2^31 - 1\<close> milliseconds: the timer is set for one millisecond, and the
  attempt follows it, long before \<open>earliestRetry\<close>.
\<close>

lemma long_wait_cut_short:
  "requestAppliances 1000 (authorised\<lparr>earliestRetry := 3000001000\<rparr>)
     = (Sleeping 1001, authorised\<lparr>earliestRetry := 3000001000\<rparr>)
   \<and> requestAppliances_resume 1001 Wakes (Sleeping 1001) (authorised\<lparr>earliestRetry := 3000001000\<rparr>)
     = Some (InFlight 1001, authorised\<lparr>earliestRetry := 3000001000\<rparr>)"
  by (simp add: authorised_def requestAppliances_def requestAppliances_loop_def
        attempt_def getAuthorisation_def setTimeoutDelay_def TIMEOUT_MAX_def Let_def)

section \<open>Properties of event streams\<close>

lemma decodeSample_k1: \<open>decodeSample ''{"k":1}'' = Some (JObj [(''k'', JNum 1)])\<close>
  by (simp add: decodeSample_def decodeString_def decodeNumber_def isDigit_def jsonSpace_def)

lemma decodeSample_oops: \<open>decodeSample ''{oops'' = None\<close>
  by (simp add: decodeSample_def decodeString_def decodeNumber_def isDigit_def jsonSpace_def)

lemma fieldLine_event: "fieldLine ''event: NOTIFY'' = Some (''event'', ''NOTIFY'')"
  by (simp add: fieldLine_def isWord_def isSpace_def isLineTerminator_def)

lemma fieldLine_data: \<open>fieldLine ''data: {"k":1}'' = Some (''data'', ''{"k":1}'')\<close>
  by (simp add: fieldLine_def isWord_def isSpace_def isLineTerminator_def)

lemma splitLines_notify:
  \<open>splitLines ''event: NOTIFY\<newline>data: {"k":1}\<newline>\<newline>''
     = [''event: NOTIFY'', ''data: {"k":1}'', '''', '''']\<close>
  by simp

lemma splitLines_partial:
  \<open>splitLines ''event: NOTIFY\<newline>data: {"k":1}'' = [''event: NOTIFY'', ''data: {"k":1}'']\<close>
  by simp

lemma callbackLines_aborted:
  "aborted st \<Longrightarrow> callbackLines parse haid ls st s = (None, st, s)"
  by (induction ls) simp_all

lemma streamRun_aborted_chunks:
  "aborted st \<Longrightarrow> streamRun parse haid (map Chunk cs) st s = (None, st, s)"
  by (induction cs) (simp_all add: streamStep_def callbackLines_aborted)

text \<open>
  Claim C8. \<open>JSON.parse\<close> decodes the text \<open>{"k":1}\<close> to the object \<open>{k: 1}\<close>. Then
  the lines \<open>event: NOTIFY\<close>, \<open>data: {"k":1}\<close> and an empty line, delivered to a fresh
  stream, emit exactly one event, with the event name and the decoded data, and leave
  the parser as it started; so does the chunk that holds these lines. An empty line with
  no field accumulated emits nothing. When \<open>stopEvents\<close> comes before the empty line the
  promise is fulfilled and nothing is emitted, whatever chunks may still follow: the
  fields accumulated so far are never delivered.
\<close>

theorem two_field_event_emitted_once:
  assumes \<open>parse ''{"k":1}'' = Some (JObj [(''k'', JNum 1)])\<close>
    and "st = \<lparr>aborted = False, event = [], settled = None, registered = True\<rparr>"
  shows \<open>callbackLines parse haid [''event: NOTIFY'', ''data: {"k":1}'', ''''] st s
           = (None, st, s\<lparr>emits := emits s @
                [ApplianceEvent haid [(''event'', JStr ''NOTIFY''), (''data'', JObj [(''k'', JNum 1)])]]\<rparr>)
         \<and> streamStep parse haid (Chunk ''event: NOTIFY\<newline>data: {"k":1}\<newline>\<newline>'') st s
           = (None, st, s\<lparr>emits := emits s @
                [ApplianceEvent haid [(''event'', JStr ''NOTIFY''), (''data'', JObj [(''k'', JNum 1)])]]\<rparr>)
         \<and> eventLine parse haid [] [] s = Return ([], s)
         \<and> streamRun parse haid
              (Chunk ''event: NOTIFY\<newline>data: {"k":1}'' # StopEvents # map Chunk later) st s
           = (None,
              \<lparr>aborted = True,
               event = [(''event'', JStr ''NOTIFY''), (''data'', JObj [(''k'', JNum 1)])],
               settled = Some (Return ()), registered = False\<rparr>, s)\<close>
proof -
  have lines: \<open>callbackLines parse haid [''event: NOTIFY'', ''data: {"k":1}'', ''''] st s
           = (None, st, s\<lparr>emits := emits s @
                [ApplianceEvent haid [(''event'', JStr ''NOTIFY''), (''data'', JObj [(''k'', JNum 1)])]]\<rparr>)\<close>
    using assms(1)
    by (simp add: assms(2) eventLine_def fieldLine_event fieldLine_data setProperty_def)
  have chunk: \<open>streamStep parse haid (Chunk ''event: NOTIFY\<newline>data: {"k":1}\<newline>\<newline>'') st s
           = (None, st, s\<lparr>emits := emits s @
                [ApplianceEvent haid [(''event'', JStr ''NOTIFY''), (''data'', JObj [(''k'', JNum 1)])]]\<rparr>)\<close>
    unfolding streamStep_def happening.case splitLines_notify
    using assms(1)
    by (simp add: assms(2) eventLine_def fieldLine_event fieldLine_data setProperty_def)
  have blank: "eventLine parse haid [] [] s = Return ([], s)"
    by (simp add: eventLine_def)
  have part: \<open>streamStep parse haid (Chunk ''event: NOTIFY\<newline>data: {"k":1}'') st s
           = (None, st\<lparr>event := [(''event'', JStr ''NOTIFY''), (''data'', JObj [(''k'', JNum 1)])]\<rparr>, s)\<close>
    unfolding streamStep_def happening.case splitLines_partial
    using assms(1)
    by (simp add: assms(2) eventLine_def fieldLine_event fieldLine_data setProperty_def)
  have stop: \<open>streamRun parse haid
              (Chunk ''event: NOTIFY\<newline>data: {"k":1}'' # StopEvents # map Chunk later) st s
           = (None,
              \<lparr>aborted = True,
               event = [(''event'', JStr ''NOTIFY''), (''data'', JObj [(''k'', JNum 1)])],
               settled = Some (Return ()), registered = False\<rparr>, s)\<close>
    unfolding streamRun.simps part
    by (simp add: streamStep_def stopEvents_def abort_def settle_def assms(2) streamRun_aborted_chunks)
  from lines chunk blank stop show ?thesis by blast
qed

theorem two_field_event_emitted_once_witness:
  \<open>decodeSample ''{"k":1}'' = Some (JObj [(''k'', JNum 1)])
   \<and> emits (snd (snd (streamStep decodeSample ''oven''
        (Chunk ''event: NOTIFY\<newline>data: {"k":1}\<newline>\<newline>'')
        \<lparr>aborted = False, event = [], settled = None, registered = True\<rparr> authorised)))
      = [ApplianceEvent ''oven'' [(''event'', JStr ''NOTIFY''), (''data'', JObj [(''k'', JNum 1)])]]
   \<and> emits (snd (snd (streamRun decodeSample ''oven''
        [Chunk ''event: NOTIFY\<newline>data: {"k":1}'', StopEvents, Chunk [CHR 0x0A, CHR 0x0A]]
        \<lparr>aborted = False, event = [], settled = None, registered = True\<rparr> authorised)))
      = []\<close>
  using two_field_event_emitted_once [where parse = decodeSample and haid = "''oven''"
      and st = "\<lparr>aborted = False, event = [], settled = None, registered = True\<rparr>"
      and s = authorised and later = "[[CHR 0x0A, CHR 0x0A]]", OF decodeSample_k1]
  by (simp add: authorised_def decodeSample_k1)


lemma dropWhile_isSpace_value:
  "list_all isSpace ws \<Longrightarrow> v \<noteq> [] \<Longrightarrow> \<not> isSpace (hd v) \<Longrightarrow> dropWhile isSpace (ws @ v) = v"
  by (induction ws) (auto simp: neq_Nil_conv)

lemma fieldLine_data_value:
  assumes "list_all isSpace ws" "v \<noteq> []" "\<not> isSpace (hd v)" "\<not> list_ex isLineTerminator v"
  shows "fieldLine (''data:'' @ ws @ v) = Some (''data'', v)"
  using assms by (simp add: fieldLine_def isWord_def dropWhile_isSpace_value)

text \<open>
  Claim C9 (what the code does where the claim fails). A line \<open>data:\<close>, white space,
  and a non-empty value that \<open>JSON.parse\<close> rejects makes the line callback throw a
  \<open>SyntaxError\<close>: the error leaves the callback, the lines after it are not delivered and
  the event is not changed. (A line that does not match the pattern of a field is
  skipped, as the claim says.)
\<close>

theorem data_not_json_throws:
  assumes "parse v = None"
    and "list_all isSpace ws" and "v \<noteq> []" and "\<not> isSpace (hd v)"
    and "\<not> list_ex isLineTerminator v"
  shows "eventLine parse haid (''data:'' @ ws @ v) ev s = Throw \<lparr>kind = SyntaxErr, retry = False\<rparr>
    \<and> (\<not> aborted st \<longrightarrow>
         callbackLines parse haid ((''data:'' @ ws @ v) # ls) st s
           = (Some \<lparr>kind = SyntaxErr, retry = False\<rparr>, st, s))"
proof -
  have "eventLine parse haid (''data:'' @ ws @ v) ev' s = Throw \<lparr>kind = SyntaxErr, retry = False\<rparr>"
    for ev'
    using assms(1,3) fieldLine_data_value [OF assms(2-5)]
    by (simp add: eventLine_def)
  then show ?thesis by simp
qed

theorem data_not_json_throws_witness:
  \<open>decodeSample ''{oops'' = None
   \<and> eventLine decodeSample ''oven'' ''data: {oops'' [(''event'', JStr ''NOTIFY'')] authorised
       = Throw \<lparr>kind = SyntaxErr, retry = False\<rparr>
   \<and> fst (streamRun decodeSample ''oven''
        [Chunk ''event: NOTIFY\<newline>data: {oops\<newline>\<newline>'']
        \<lparr>aborted = False, event = [], settled = None, registered = True\<rparr> authorised)
       = Some \<lparr>kind = SyntaxErr, retry = False\<rparr>\<close>
proof -
  have e: \<open>eventLine decodeSample ''oven'' ''data: {oops'' [(''event'', JStr ''NOTIFY'')] authorised
       = Throw \<lparr>kind = SyntaxErr, retry = False\<rparr>\<close>
    using data_not_json_throws [where parse = decodeSample and v = "''{oops''" and ws = "'' ''"
        and haid = "''oven''" and ev = "[(''event'', JStr ''NOTIFY'')]" and s = authorised,
        OF decodeSample_oops]
    by (simp add: isSpace_def isLineTerminator_def)
  have f: "fieldLine ''event: NOTIFY'' = Some (''event'', ''NOTIFY'')"
    by (simp add: fieldLine_def isWord_def isSpace_def isLineTerminator_def)
  show ?thesis
    using e decodeSample_oops
    by (simp add: streamStep_def eventLine_def f setProperty_def)
qed

text \<open>
  Claim C7 (what the code does where the claim fails). When a stream completes with an
  error body whose key is \<open>429\<close>, the \<open>complete\<close> handler throws a \<open>ReferenceError\<close>
  before it reaches \<open>retryAfter\<close>: the state is unchanged (the rate limit is not
  advanced), \<open>callbackDone\<close> is not called, so the promise of the stream is not
  settled, and \<open>getEvents\<close> neither restarts the stream nor rejects.
\<close>

theorem stream_429_throws:
  assumes "errorBody r = Some b"
    and "get b ''error'' = Some e"
    and "get e ''key'' = Some (JStr ''429'')"
  shows "requestStreamRaw_complete r s = Throw \<lparr>kind = ReferenceErr, retry = False\<rparr>
    \<and> streamStep parse haid (Completed r) st s = (Some \<lparr>kind = ReferenceErr, retry = False\<rparr>, st, s)
    \<and> (getAuthorisation s = Return hdr \<longrightarrow>
         getEvents parse haid (\<lparr>wakesLate = l, happenings = [Completed r], lasts = d\<rparr> # rest) now s
           = Some (Uncaught \<lparr>kind = ReferenceErr, retry = False\<rparr>,
                   s\<lparr>requestCount := requestCount s + 1\<rparr>))"
proof -
  have te: "truthy (Some e)"
    using assms(3) by (cases e) simp_all
  have tb: "truthy (Some b)"
    using assms(2) by (cases b) simp_all
  have c: "requestStreamRaw_complete r s' = Throw \<lparr>kind = ReferenceErr, retry = False\<rparr>" for s'
    using assms te tb by (simp add: requestStreamRaw_complete_def field_def Let_def)
  then show ?thesis
    by (simp add: streamStep_def requestStream_def Let_def)
qed

theorem stream_429_throws_witness:
  "requestStreamRaw_complete tooMany authorised = Throw \<lparr>kind = ReferenceErr, retry = False\<rparr>
   \<and> map_option fst (getEvents decodeSample ''oven''
        [\<lparr>wakesLate = 0, happenings = [Completed tooMany], lasts = 10\<rparr>] 1000 authorised)
       = Some (Uncaught \<lparr>kind = ReferenceErr, retry = False\<rparr>)
   \<and> map_option (earliestRetry \<circ> snd) (getEvents decodeSample ''oven''
        [\<lparr>wakesLate = 0, happenings = [Completed tooMany], lasts = 10\<rparr>] 1000 authorised)
       = Some 0"
  using stream_429_throws [where r = tooMany and s = authorised and hdr = "''Bearer a''"
      and b = "JObj [(''error'', JObj [(''key'', JStr ''429''), (''description'', JStr ''Rate limit'')])]"
      and e = "JObj [(''key'', JStr ''429''), (''description'', JStr ''Rate limit'')]"
      and parse = decodeSample and haid = "''oven''" and l = 0 and d = 10 and rest = "[]" and now = 1000]
  by (simp add: tooMany_def authorised_def getAuthorisation_def)

lemma stream_completion_never_retryable:
  "requestStreamRaw_complete r s = Return (Some e, s') \<Longrightarrow> \<not> retry e"
  by (auto simp: requestStreamRaw_complete_def Let_def split: if_splits)

section \<open>Properties of the authorisation loop\<close>

lemma sleep_frame [simp]:
  "savedAuth (sleep i s) = savedAuth s" "clientID (sleep i s) = clientID s"
  "scopes (sleep i s) = scopes s" "earliestRetry (sleep i s) = earliestRetry s"
  "requestCount (sleep i s) = requestCount s" "authResolve (sleep i s) = authResolve s"
  "emits (sleep i s) = emits s" "simulator (sleep i s) = simulator s"
  by (simp_all add: sleep_def split: option.splits)

lemma requestRaw_grant_rejected:
  assumes "errorBody r = Some b"
    and "truthy (get b ''error_description'')"
    and "get b ''error'' = Some (JStr c)"
    and "c = ''invalid_grant'' \<or> c = ''expired_token''"
    and "followRedirect opts = Some True \<or> statusCode r \<noteq> 302"
  shows "requestRaw opts (StatusCodeError r) now s
         = (Throw \<lparr>kind = StatusCodeErr, retry = False\<rparr>,
            authInvalidate (s\<lparr>requestCount := requestCount s + 1\<rparr>))"
proof -
  have tb: "truthy (Some b)"
    using assms(3) by (cases b) simp_all
  show ?thesis
    using assms tb by (auto simp: requestRaw_def Let_def field_def)
qed

lemma catchBlock_no_record:
  assumes "savedAuth s (clientID s) = None"
  shows "catchBlock s = (AwaitRetrySleep (AUTH_RETRY_DELAY * MS), sleep None (tokenInvalidate s))"
  using assms by (simp add: catchBlock_def Let_def tokenInvalidate_savedAuth)

text \<open>
  Claim C2. An error response of the token endpoint is what \<open>requestRaw\<close> takes as
  an OAuth error: a \<open>StatusCodeError\<close> (not a redirect) whose body has a truthy
  \<open>error_description\<close>. When its \<open>error\<close> is \<open>invalid_grant\<close> or \<open>expired_token\<close>, and
  \<open>authoriseClient\<close> awaits the token endpoint (polling for the device token, exchanging
  the authorisation code, or refreshing), the record of the client id is deleted as a
  whole, the records of other client ids stay, the loop sleeps for the long retry delay
  of 60 seconds, and when that timer fires it starts the authorisation flow anew with
  its first request, still without a record.
\<close>

theorem grant_rejected_restarts_authorisation:
  assumes "errorBody r = Some b"
    and "truthy (get b ''error_description'')"
    and "get b ''error'' = Some (JStr c)"
    and "c = ''invalid_grant'' \<or> c = ''expired_token''"
    and "statusCode r \<noteq> 302"
    and "w = AwaitPoll resp \<or> w = AwaitCodeToken \<or> w = AwaitRefresh"
  shows "\<exists>s'. resume now (TokenAnswer (StatusCodeError r)) w s
                 = Some (AwaitRetrySleep (AUTH_RETRY_DELAY * MS), s')
           \<and> clientID s' = clientID s
           \<and> savedAuth s' (clientID s) = None
           \<and> (\<forall>other. other \<noteq> clientID s \<longrightarrow> savedAuth s' other = savedAuth s other)
           \<and> resume later Timer (AwaitRetrySleep (AUTH_RETRY_DELAY * MS)) s'
                 = Some (if simulator s then AwaitAuthorize else AwaitDeviceAuthorization, s')"
proof -
  define s1 where "s1 = authInvalidate (s\<lparr>requestCount := requestCount s + 1\<rparr>)"
  define s' where "s' = sleep None (tokenInvalidate s1)"
  have raw: "requestRaw formOptions (StatusCodeError r :: token option outcome) now s
             = (Throw \<lparr>kind = StatusCodeErr, retry = False\<rparr>, s1)"
    unfolding s1_def using assms(1-5) by (intro requestRaw_grant_rejected) simp_all
  have none: "savedAuth s1 (clientID s1) = None"
    by (simp add: s1_def)
  have c: "catchBlock s1 = (AwaitRetrySleep (AUTH_RETRY_DELAY * MS), s')"
    unfolding s'_def by (rule catchBlock_no_record [OF none])
  have step: "resume now (TokenAnswer (StatusCodeError r)) w s
              = Some (AwaitRetrySleep (AUTH_RETRY_DELAY * MS), s')"
    using assms(6) raw c by auto
  have id: "clientID s' = clientID s" "simulator s' = simulator s"
    by (simp_all add: s'_def s1_def)
  have gone: "savedAuth s' (clientID s) = None"
    by (simp add: s'_def s1_def tokenInvalidate_savedAuth)
  have others: "\<forall>other. other \<noteq> clientID s \<longrightarrow> savedAuth s' other = savedAuth s other"
    by (simp add: s'_def s1_def tokenInvalidate_savedAuth)
  have again: "resume later Timer (AwaitRetrySleep (AUTH_RETRY_DELAY * MS)) s'
               = Some (if simulator s then AwaitAuthorize else AwaitDeviceAuthorization, s')"
    using gone id by (simp add: authoriseClient_def)
  from step id gone others again show ?thesis by blast
qed



theorem grant_rejected_restarts_authorisation_witness:
  "map_option fst (resumes [(1000, TokenAnswer (StatusCodeError invalidGrant)), (61000, Timer)]
                     (AwaitRefresh, authorised))
     = Some AwaitDeviceAuthorization
   \<and> map_option (\<lambda>(w, s). savedAuth s ''c'')
        (resumes [(1000, TokenAnswer (StatusCodeError invalidGrant)), (61000, Timer)]
           (AwaitRefresh, authorised))
     = Some None
   \<and> map_option fst (resume 1000 (TokenAnswer (StatusCodeError invalidGrant)) AwaitRefresh authorised)
     = Some (AwaitRetrySleep 60000)"
proof -
  let ?b = "JObj [(''error'', JStr ''invalid_grant''),
                  (''error_description'', JStr ''refresh token is invalid'')]"
  let ?resp = "\<lparr>verification_uri_complete = None, interval = NaN, device_code = None\<rparr>"
  have h1: "errorBody invalidGrant = Some ?b" by (simp add: invalidGrant_def)
  have h2: "truthy (get ?b ''error_description'')" by simp
  have h3: "get ?b ''error'' = Some (JStr ''invalid_grant'')" by simp
  have h4: "''invalid_grant'' = ''invalid_grant'' \<or> ''invalid_grant'' = ''expired_token''" by simp
  have h5: "statusCode invalidGrant \<noteq> 302" by (simp add: invalidGrant_def)
  have h6: "AwaitRefresh = AwaitPoll ?resp \<or> AwaitRefresh = AwaitCodeToken \<or> AwaitRefresh = AwaitRefresh"
    by simp
  from grant_rejected_restarts_authorisation [OF h1 h2 h3 h4 h5 h6, of 1000 authorised 61000]
  obtain s' where
    a: "resume 1000 (TokenAnswer (StatusCodeError invalidGrant)) AwaitRefresh authorised
          = Some (AwaitRetrySleep (AUTH_RETRY_DELAY * MS), s')"
    and b: "savedAuth s' (clientID authorised) = None"
    and c: "resume 61000 Timer (AwaitRetrySleep (AUTH_RETRY_DELAY * MS)) s'
          = Some (if simulator authorised then AwaitAuthorize else AwaitDeviceAuthorization, s')"
    by blast
  have d: "clientID authorised = ''c''" "\<not> simulator authorised"
    by (simp_all add: authorised_def)
  have a': "resume 1000 (TokenAnswer (StatusCodeError invalidGrant)) AwaitRefresh authorised
          = Some (AwaitRetrySleep 60000, s')"
    using a by (simp del: resume.simps add: AUTH_RETRY_DELAY_def MS_def)
  have c': "resume 61000 Timer (AwaitRetrySleep 60000) s' = Some (AwaitDeviceAuthorization, s')"
    using c d by (simp del: resume.simps add: AUTH_RETRY_DELAY_def MS_def)
  show ?thesis
    using b by (simp del: resume.simps add: a' c' d)
qed

text \<open>
  The device flow on a sample run: the verification address is emitted, a pending poll
  is followed by another one, the token is saved, the queued waiters are released, and
  the loop sleeps until the refresh window.
\<close>

lemma device_flow_sample:
  "map_option (\<lambda>(w, s). (w, savedAuth s ''c'', authResolve s, emits s))
     (resumes deviceFlowRun (authoriseClient 0 unauthorised))
   = Some (AwaitRefreshSleep (Num 82800000),
           Some \<lparr>refreshToken = Some ''r'', accessToken = Some ''a'',
                 accessExpires = Num 86410300, authScopes = Some [''Monitor'']\<rparr>,
           0, [AuthUri (Some ''https://verify''), AuthSave])"
  by (simp add: deviceFlowRun_def unauthorised_def authoriseClient_def requestRaw_def
      formOptions_def deviceFields_def sleep_def authorizationPending_def field_def falsy_def
      granted_def tokenSave_def tokenFields_def refreshLoop_def present_def
      MS_def TOKEN_REFRESH_WINDOW_def Let_def)


text \<open>
  After an access token was invalidated while the loop slept before a refresh: the sleep
  is rejected, the loop waits the short retry delay of 5 seconds, and then asks for a
  refresh at once; the record and its refresh token are still there.
\<close>

lemma token_invalidated_refreshes:
  assumes "savedAuth s (clientID s) = Some a"
    and "sleepReject s ''refresh'' = Some Pending"
  shows "\<exists>s1 s2. resume now Rejection (AwaitRefreshSleep d) (tokenInvalidate s)
                    = Some (AwaitRetrySleep (REFRESH_RETRY_DELAY * MS), s1)
           \<and> resume later Timer (AwaitRetrySleep (REFRESH_RETRY_DELAY * MS)) s1
                    = Some (AwaitRefresh, s2)
           \<and> savedAuth s2 (clientID s) = Some (a\<lparr>accessToken := None\<rparr>)"
proof -
  define t where "t = tokenInvalidate s"
  have r: "sleepReject t ''refresh'' = Some Rejected"
    using assms by (simp add: t_def tokenInvalidate_def wake_def)
  have sa: "savedAuth t (clientID t) = Some (a\<lparr>accessToken := None\<rparr>)"
    using assms(1) by (simp add: t_def tokenInvalidate_savedAuth)
  define s1 where "s1 = sleep None (tokenInvalidate t)"
  have c: "catchBlock t = (AwaitRetrySleep (REFRESH_RETRY_DELAY * MS), s1)"
    using sa by (simp add: catchBlock_def Let_def s1_def tokenInvalidate_savedAuth)
  have s1a: "savedAuth s1 (clientID s1) = Some (a\<lparr>accessToken := None\<rparr>)"
    using sa by (simp add: s1_def tokenInvalidate_savedAuth)
  have id: "clientID s1 = clientID s"
    by (simp add: s1_def t_def)
  obtain w2 s2 where top: "authoriseClient later s1 = (w2, s2)"
    by (cases "authoriseClient later s1")
  have "w2 = AwaitRefresh \<and> savedAuth s2 (clientID s) = Some (a\<lparr>accessToken := None\<rparr>)"
    using top s1a id
    by (auto simp: authoriseClient_def refreshLoop_def present_def Let_def
        split: option.splits)
  then show ?thesis
    using r c top by (auto simp: t_def [symmetric])
qed

end
